theory Spec2Isabelle
  imports Complex_Main "HOL-Library.Sublist" "HOL-Library.Multiset"
begin

section \<open>Python strings\<close>

text \<open>
  A Python \<^verbatim>\<open>str\<close> is a sequence of code points. It is modelled as a HOL \<^typ>\<open>string\<close>,
  one \<^typ>\<open>char\<close> per code point, so the model ranges over the code points below 256
  (Latin-1). The character classes below are those of CPython on that range.
\<close>

definition code_point :: "char \<Rightarrow> nat" where
  "code_point c = of_char c"

text \<open>\<^verbatim>\<open>str.isspace\<close>, the class used by \<^verbatim>\<open>str.split()\<close> and \<^verbatim>\<open>str.strip()\<close>.\<close>

definition py_isspace :: "char \<Rightarrow> bool" where
  "py_isspace c = (code_point c \<in> {9, 10, 11, 12, 13, 28, 29, 30, 31, 32, 133, 160})"



text \<open>\<^verbatim>\<open>str.lower\<close>, character by character (on this range it never changes the length).\<close>

definition lower_char :: "char \<Rightarrow> char" where
  "lower_char c =
     (let n = code_point c in
        if (65 \<le> n \<and> n \<le> 90) \<or> (192 \<le> n \<and> n \<le> 214) \<or> (216 \<le> n \<and> n \<le> 222)
        then char_of (n + 32) else c)"

definition py_lower :: "string \<Rightarrow> string" where
  "py_lower s = map lower_char s"

text \<open>\<^verbatim>\<open>s.split()\<close>: the maximal runs of non-whitespace characters, in order.\<close>

fun split_from :: "string \<Rightarrow> string \<Rightarrow> string list" where
  "split_from cur [] = (if cur = [] then [] else [cur])"
| "split_from cur (c # cs) =
     (if py_isspace c then (if cur = [] then split_from [] cs else cur # split_from [] cs)
      else split_from (cur @ [c]) cs)"

definition py_split :: "string \<Rightarrow> string list" where
  "py_split s = split_from [] s"

text \<open>\<^verbatim>\<open>s.strip()\<close>: whitespace removed at both ends.\<close>

definition py_strip :: "string \<Rightarrow> string" where
  "py_strip s = rev (dropWhile py_isspace (rev (dropWhile py_isspace s)))"

text \<open>\<^verbatim>\<open>sep.join(xs)\<close>.\<close>

fun py_join :: "string \<Rightarrow> string list \<Rightarrow> string" where
  "py_join sep [] = []"
| "py_join sep [x] = x"
| "py_join sep (x # y # ys) = x @ sep @ py_join sep (y # ys)"

text \<open>\<^verbatim>\<open>needle in hay\<close> on strings: the needle occurs as a contiguous substring.\<close>

fun py_in :: "string \<Rightarrow> string \<Rightarrow> bool" where
  "py_in needle [] = (needle = [])"
| "py_in needle (c # cs) = (prefix needle (c # cs) \<or> py_in needle cs)"

section \<open>Exceptions\<close>

text \<open>
  Every exception below is an instance of \<^verbatim>\<open>Exception\<close>. \<open>IndexError\<close> and \<open>KeyError\<close> are
  raised by the program's own indexing; \<open>LibraryError\<close> stands for whatever a called library
  (requests, BeautifulSoup, NLTK, spaCy) raises, with its message.
\<close>

datatype py_exception = IndexError | KeyError string | LibraryError string

text \<open>\<^verbatim>\<open>str(e)\<close>.\<close>

fun str_of_exception :: "py_exception \<Rightarrow> string" where
  "str_of_exception IndexError = ''list index out of range''"
| "str_of_exception (KeyError k) = [CHR 0x27] @ k @ [CHR 0x27]"
| "str_of_exception (LibraryError m) = m"

section \<open>Data model\<close>

text \<open>
  A Python number as the program produces it: an \<^verbatim>\<open>int\<close>, or a \<^verbatim>\<open>float\<close> given by its
  value. True division is modelled by the exact quotient.
\<close>

datatype py_number = PyInt int | PyFloat rat

fun num_val :: "py_number \<Rightarrow> rat" where
  "num_val (PyInt i) = of_int i"
| "num_val (PyFloat q) = q"

record link =
  link_text :: string
  href :: string

record metric_set =
  word_count :: nat
  avg_sentence_length :: py_number
  num_headings :: nat
  num_internal_links :: nat
  num_external_links :: nat

record analysis_record =
  url :: string
  analyzed_at :: string
  metrics :: metric_set
  headings :: "string list"
  internal_links :: "link list"
  external_links :: "link list"
  top_keywords :: "(string \<times> nat) list"

text \<open>
  The dictionary returned by \<^verbatim>\<open>analyze_article\<close>: either \<^verbatim>\<open>{'error': message}\<close> or the
  full record.
\<close>

datatype analysis = Failed string | Analysed analysis_record

record suggestion =
  category :: string
  issue :: string
  advice :: string
  priority :: string

section \<open>Suggestion engine\<close>

definition content_length_suggestion :: suggestion where
  "content_length_suggestion =
     \<lparr>category = ''Content Length'', issue = ''Content is too short'',
      advice = ''Aim for at least 300 words for better SEO performance.'',
      priority = ''High''\<rparr>"

definition readability_suggestion :: suggestion where
  "readability_suggestion =
     \<lparr>category = ''Readability'', issue = ''Sentences are too long'',
      advice = ''Try to keep average sentence length under 20 words for better readability.'',
      priority = ''Medium''\<rparr>"

definition structure_suggestion :: suggestion where
  "structure_suggestion =
     \<lparr>category = ''Structure'', issue = ''No headings found'',
      advice = ''Add hierarchical headings (H1, H2, etc.) to improve content structure.'',
      priority = ''High''\<rparr>"

definition internal_linking_suggestion :: suggestion where
  "internal_linking_suggestion =
     \<lparr>category = ''Internal Linking'', issue = ''Few internal links'',
      advice = ''Add more internal links to improve site structure and SEO.'',
      priority = ''Medium''\<rparr>"

definition external_linking_suggestion :: suggestion where
  "external_linking_suggestion =
     \<lparr>category = ''External Linking'', issue = ''No external links'',
      advice = ''Consider adding relevant external links to authoritative sources.'',
      priority = ''Low''\<rparr>"

text \<open>
  \<^verbatim>\<open>suggest_improvements\<close> reads \<^verbatim>\<open>analysis['metrics']\<close>, which raises \<open>KeyError\<close> on the
  error dictionary, and then runs five independent \<^verbatim>\<open>if\<close> statements, each appending to the
  list built so far.
\<close>

definition suggest_from_metrics :: "metric_set \<Rightarrow> suggestion list" where
  "suggest_from_metrics m =
     (let s0 = [];
          s1 = (if word_count m < 300 then s0 @ [content_length_suggestion] else s0);
          s2 = (if num_val (avg_sentence_length m) > 20 then s1 @ [readability_suggestion] else s1);
          s3 = (if num_headings m = 0 then s2 @ [structure_suggestion] else s2);
          s4 = (if num_internal_links m < 2 then s3 @ [internal_linking_suggestion] else s3);
          s5 = (if num_external_links m = 0 then s4 @ [external_linking_suggestion] else s4)
      in s5)"

fun suggest_improvements :: "analysis \<Rightarrow> py_exception + suggestion list" where
  "suggest_improvements (Failed msg) = Inl (KeyError ''metrics'')"
| "suggest_improvements (Analysed r) = Inr (suggest_from_metrics (metrics r))"

text \<open>
  The rule table as the specification writes it: one condition and one suggestion per row,
  in declaration order. The engine of the specification returns the suggestions of the rows
  whose condition holds.
\<close>

definition rule_table :: "((metric_set \<Rightarrow> bool) \<times> suggestion) list" where
  "rule_table =
     [(\<lambda>m. word_count m < 300, content_length_suggestion),
      (\<lambda>m. num_val (avg_sentence_length m) > 20, readability_suggestion),
      (\<lambda>m. num_headings m = 0, structure_suggestion),
      (\<lambda>m. num_internal_links m < 2, internal_linking_suggestion),
      (\<lambda>m. num_external_links m = 0, external_linking_suggestion)]"

definition fired_rules :: "metric_set \<Rightarrow> suggestion list" where
  "fired_rules m = map snd (filter (\<lambda>rule. fst rule m) rule_table)"

definition label :: "suggestion \<Rightarrow> string \<times> string" where
  "label s = (category s, priority s)"

definition scenario3_metrics :: metric_set where
  "scenario3_metrics =
     \<lparr>word_count = 250, avg_sentence_length = PyFloat 15, num_headings = 1,
      num_internal_links = 0, num_external_links = 0\<rparr>"

section \<open>The parsed page\<close>

text \<open>
  The program reads three things of a BeautifulSoup tag: its name, its \<^verbatim>\<open>.text\<close> and the
  value of its \<^verbatim>\<open>href\<close> attribute (absent when \<^verbatim>\<open>get('href')\<close> is \<^verbatim>\<open>None\<close>). The parsed
  document is the sequence of its tags in document order, the order \<^verbatim>\<open>find_all\<close> visits.
\<close>

record element =
  tag_name :: string
  tag_text :: string
  tag_href :: "string option"

text \<open>\<^verbatim>\<open>soup.find_all(name)\<close>.\<close>

definition find_all :: "string \<Rightarrow> element list \<Rightarrow> element list" where
  "find_all nm soup = filter (\<lambda>e. tag_name e = nm) soup"

text \<open>
  \<^verbatim>\<open>soup.find_all('a', href=True)\<close>, each anchor given as the pair of its \<^verbatim>\<open>.text\<close> and
  its \<^verbatim>\<open>get('href')\<close>.
\<close>

definition href_anchors :: "element list \<Rightarrow> (string \<times> string) list" where
  "href_anchors soup =
     concat (map (\<lambda>e. case tag_href e of
                          None \<Rightarrow> []
                        | Some h \<Rightarrow> if tag_name e = ''a'' then [(tag_text e, h)] else []) soup)"

text \<open>\<^verbatim>\<open>' '.join([p.text for p in soup.find_all('p')])\<close>.\<close>

definition page_text :: "element list \<Rightarrow> string" where
  "page_text soup = py_join '' '' (map tag_text (find_all ''p'' soup))"

subsection \<open>Headings\<close>

definition digit_char :: "nat \<Rightarrow> char" where
  "digit_char d = char_of (48 + d)"

text \<open>\<^verbatim>\<open>f'h{i}'\<close> for the one-digit levels of \<^verbatim>\<open>range(1, 7)\<close>.\<close>

definition heading_tag :: "nat \<Rightarrow> string" where
  "heading_tag i = [CHR ''h'', digit_char i]"

text \<open>
  \<^verbatim>\<open>for i in range(1, 7): headings.extend([h.text.strip() for h in soup.find_all(f'h{i}')])\<close>
\<close>

definition collect_headings :: "element list \<Rightarrow> string list" where
  "collect_headings soup =
     fold (\<lambda>i hs. hs @ map (\<lambda>h. py_strip (tag_text h)) (find_all (heading_tag i) soup))
       [1 ..< 7] []"

subsection \<open>Links\<close>

text \<open>
  One attempt of the pattern \<^verbatim>\<open>https?://(?:www\.)?([^/]+)\<close> at the start of a string,
  returning group 1. Both optional parts are greedy: \<^verbatim>\<open>www.\<close> is skipped when present,
  unless nothing but a slash or the end follows it, in which case the group is matched
  without skipping it.
\<close>

definition not_slash :: "char \<Rightarrow> bool" where
  "not_slash c = (c \<noteq> CHR ''/'')"

definition match_url_at :: "string \<Rightarrow> string option" where
  "match_url_at s =
     (if prefix ''http'' s then
        (let r1 = drop 4 s;
             r2 = (if prefix ''s://'' r1 then Some (drop 4 r1)
                   else if prefix ''://'' r1 then Some (drop 3 r1) else None)
         in case r2 of
              None \<Rightarrow> None
            | Some r \<Rightarrow>
                if prefix ''www.'' r \<and> takeWhile not_slash (drop 4 r) \<noteq> []
                then Some (takeWhile not_slash (drop 4 r))
                else if takeWhile not_slash r \<noteq> [] then Some (takeWhile not_slash r)
                else None)
      else None)"

text \<open>The first match of \<^verbatim>\<open>re.findall\<close>: the leftmost position where the pattern matches.\<close>

fun first_match :: "string \<Rightarrow> string option" where
  "first_match [] = None"
| "first_match (c # cs) =
     (case match_url_at (c # cs) of Some d \<Rightarrow> Some d | None \<Rightarrow> first_match cs)"

text \<open>\<^verbatim>\<open>re.findall(r'https?://(?:www\.)?([^/]+)', url)[0]\<close>.\<close>

definition url_domain :: "string \<Rightarrow> py_exception + string" where
  "url_domain u = (case first_match u of None \<Rightarrow> Inl IndexError | Some d \<Rightarrow> Inr d)"

text \<open>The loop over the anchors, with the two lists it appends to.\<close>

definition make_link :: "string \<times> string \<Rightarrow> link" where
  "make_link a = \<lparr>link_text = py_strip (fst a), href = snd a\<rparr>"

fun classify_links ::
  "string \<Rightarrow> (string \<times> string) list \<Rightarrow> link list \<Rightarrow> link list \<Rightarrow> link list \<times> link list" where
  "classify_links domain [] internal external = (internal, external)"
| "classify_links domain (a # rest) internal external =
     (let l = make_link a
      in if py_in domain (href l)
         then classify_links domain rest (internal @ [l]) external
         else classify_links domain rest internal (external @ [l]))"

subsection \<open>Keywords\<close>

record token =
  token_text :: string
  is_stop :: bool
  is_alpha :: bool

text \<open>
  A \<^verbatim>\<open>dict\<close> keeps its keys in insertion order: an association list with distinct keys.
  \<^verbatim>\<open>d[k] = v\<close> replaces the value of a present key in place and appends an absent one.
\<close>

type_synonym keyword_dict = "(string \<times> nat) list"

fun dict_set :: "('k \<times> 'v) list \<Rightarrow> 'k \<Rightarrow> 'v \<Rightarrow> ('k \<times> 'v) list" where
  "dict_set [] k v = [(k, v)]"
| "dict_set (p # ps) k v = (if fst p = k then (k, v) # ps else p # dict_set ps k v)"

text \<open>\<^verbatim>\<open>d.get(k, default)\<close>.\<close>

definition dict_get :: "keyword_dict \<Rightarrow> string \<Rightarrow> nat \<Rightarrow> nat" where
  "dict_get d k dflt = (case map_of d k of None \<Rightarrow> dflt | Some v \<Rightarrow> v)"

definition is_keyword :: "token \<Rightarrow> bool" where
  "is_keyword t = (\<not> is_stop t \<and> is_alpha t \<and> length (token_text t) > 2)"

fun count_keywords :: "token list \<Rightarrow> keyword_dict \<Rightarrow> keyword_dict" where
  "count_keywords [] keywords = keywords"
| "count_keywords (t # ts) keywords =
     (if is_keyword t
      then count_keywords ts
             (dict_set keywords (py_lower (token_text t))
                (dict_get keywords (py_lower (token_text t)) 0 + 1))
      else count_keywords ts keywords)"

text \<open>
  \<^verbatim>\<open>dict(sorted(keywords.items(), key=lambda x: x[1], reverse=True)[:10])\<close>: a stable sort
  by descending count, cut to ten entries.
\<close>

definition sorted_keywords :: "keyword_dict \<Rightarrow> keyword_dict" where
  "sorted_keywords keywords = take 10 (sort_key (\<lambda>item. - int (snd item)) keywords)"

section \<open>Date and time\<close>

record datetime =
  year :: nat
  month :: nat
  day :: nat
  hour :: nat
  minute :: nat
  second :: nat
  microsecond :: nat

text \<open>The last \<open>w\<close> decimal digits of \<open>n\<close>, zero-padded: \<^verbatim>\<open>%0wd\<close> for a field within its range.\<close>

fun zero_pad :: "nat \<Rightarrow> nat \<Rightarrow> string" where
  "zero_pad 0 n = []"
| "zero_pad (Suc w) n = zero_pad w (n div 10) @ [digit_char (n mod 10)]"


text \<open>\<^verbatim>\<open>isoformat()\<close>: the microseconds are printed only when they are not zero.\<close>

definition isoformat :: "datetime \<Rightarrow> string" where
  "isoformat t =
     zero_pad 4 (year t) @ ''-'' @ zero_pad 2 (month t) @ ''-'' @ zero_pad 2 (day t) @ ''T''
     @ zero_pad 2 (hour t) @ '':'' @ zero_pad 2 (minute t) @ '':'' @ zero_pad 2 (second t)
     @ (if microsecond t = 0 then [] else ''.'' @ zero_pad 6 (microsecond t))"

section \<open>Analysis\<close>

text \<open>
  The libraries the analysis calls. Each call either raises (\<open>Inl\<close>) or returns (\<open>Inr\<close>):
  \<^verbatim>\<open>requests.get(url).text\<close>, \<^verbatim>\<open>BeautifulSoup(html, 'html.parser')\<close>,
  \<^verbatim>\<open>nltk.sent_tokenize(text)\<close> and the spaCy pipeline \<^verbatim>\<open>self.nlp(text)\<close>.
  \<open>float_repr\<close> is \<^verbatim>\<open>float.__repr__\<close>, which the JSON encoder uses.
\<close>

record libraries =
  requests_get :: "string \<Rightarrow> py_exception + string"
  html_parser :: "string \<Rightarrow> py_exception + element list"
  sent_tokenize :: "string \<Rightarrow> py_exception + string list"
  nlp :: "string \<Rightarrow> py_exception + token list"
  float_repr :: "rat \<Rightarrow> string"

text \<open>
  \<^verbatim>\<open>word_count / len(sentences) if sentences else 0\<close>: a float when there is a sentence,
  the integer 0 otherwise.
\<close>

definition average_sentence_length :: "nat \<Rightarrow> string list \<Rightarrow> py_number" where
  "average_sentence_length wc sentences =
     (if sentences \<noteq> [] then PyFloat (of_nat wc / of_nat (length sentences)) else PyInt 0)"

text \<open>The dictionary built by the \<^verbatim>\<open>return\<close> statement, from the values computed before it.\<close>

definition build_record ::
  "datetime \<Rightarrow> string \<Rightarrow> element list \<Rightarrow> string list \<Rightarrow> string \<Rightarrow> token list \<Rightarrow> analysis_record" where
  "build_record now u soup sentences domain doc =
     (let text = page_text soup;
          wc = length (py_split text);
          avg = average_sentence_length wc sentences;
          hs = collect_headings soup;
          (internal, external) = classify_links domain (href_anchors soup) [] [];
          keywords = count_keywords doc [];
          sorted = sorted_keywords keywords
      in \<lparr>url = u, analyzed_at = isoformat now,
          metrics = \<lparr>word_count = wc, avg_sentence_length = avg,
                     num_headings = length hs,
                     num_internal_links = length internal,
                     num_external_links = length external\<rparr>,
          headings = hs, internal_links = internal, external_links = external,
          top_keywords = sorted\<rparr>)"

text \<open>
  The body of the \<^verbatim>\<open>try\<close> block, in the order of the source: the first statement that
  raises ends it.
\<close>

definition analyze_body :: "libraries \<Rightarrow> datetime \<Rightarrow> string \<Rightarrow> py_exception + analysis_record" where
  "analyze_body lib now u =
     (case requests_get lib u of
        Inl e \<Rightarrow> Inl e
      | Inr html \<Rightarrow>
     (case html_parser lib html of
        Inl e \<Rightarrow> Inl e
      | Inr soup \<Rightarrow>
     (case sent_tokenize lib (page_text soup) of
        Inl e \<Rightarrow> Inl e
      | Inr sentences \<Rightarrow>
     (case url_domain u of
        Inl e \<Rightarrow> Inl e
      | Inr domain \<Rightarrow>
     (case nlp lib (page_text soup) of
        Inl e \<Rightarrow> Inl e
      | Inr doc \<Rightarrow> Inr (build_record now u soup sentences domain doc))))))"

text \<open>\<^verbatim>\<open>except Exception as e: return {'error': str(e)}\<close>.\<close>

definition analyze_article :: "libraries \<Rightarrow> datetime \<Rightarrow> string \<Rightarrow> analysis" where
  "analyze_article lib now u =
     (case analyze_body lib now u of
        Inl e \<Rightarrow> Failed (str_of_exception e)
      | Inr r \<Rightarrow> Analysed r)"

section \<open>JSON encoding\<close>

datatype json =
    JNull
  | JBool bool
  | JNumber py_number
  | JString string
  | JArray "json list"
  | JObject "(string \<times> json) list"















section \<open>Persistence\<close>







section \<open>The single-URL flow\<close>




section \<open>JSON decoding\<close>

text \<open>
  Reading a saved file back, as \<^verbatim>\<open>json.loads\<close> does: a recursive-descent parser over the
  text. \<open>parse_float\<close> is \<^verbatim>\<open>float(s)\<close>. The literals \<^verbatim>\<open>NaN\<close> and \<^verbatim>\<open>Infinity\<close> and escapes
  \<^verbatim>\<open>\uXXXX\<close> of code points above 255 have no value in this model and are rejected. Each
  recursive call of the parser consumes one unit of fuel; \<open>json_loads\<close> starts with more
  fuel than the text has characters.
\<close>

definition is_digit :: "char \<Rightarrow> bool" where
  "is_digit c = (48 \<le> code_point c \<and> code_point c \<le> 57)"

definition digit_value :: "char \<Rightarrow> nat" where
  "digit_value c = code_point c - 48"

definition json_ws :: "char \<Rightarrow> bool" where
  "json_ws c = (c = CHR '' '' \<or> c = CHR 0x09 \<or> c = CHR 0x0A \<or> c = CHR 0x0D)"

definition skip_ws :: "string \<Rightarrow> string" where
  "skip_ws s = dropWhile json_ws s"

text \<open>
  The number pattern \<^verbatim>\<open>(-?(?:0|[1-9]\d*))(\.\d+)?([eE][-+]?\d+)?\<close>, part by part. A number
  with a fraction or an exponent is a float, any other an integer.
\<close>

definition scan_sign :: "string \<Rightarrow> string \<times> string" where
  "scan_sign s = (case s of [] \<Rightarrow> ([], s) | c # r \<Rightarrow> if c = CHR ''-'' then ([c], r) else ([], s))"

definition scan_int :: "string \<Rightarrow> (string \<times> string) option" where
  "scan_int s =
     (case s of
        [] \<Rightarrow> None
      | c # r \<Rightarrow>
          if c = CHR ''0'' then Some ([c], r)
          else if is_digit c then Some (c # takeWhile is_digit r, dropWhile is_digit r)
          else None)"

definition scan_frac :: "string \<Rightarrow> string \<times> string" where
  "scan_frac s =
     (case s of
        [] \<Rightarrow> ([], s)
      | c # r \<Rightarrow>
          if c = CHR ''.'' \<and> takeWhile is_digit r \<noteq> []
          then (c # takeWhile is_digit r, dropWhile is_digit r)
          else ([], s))"

definition scan_exp :: "string \<Rightarrow> string \<times> string" where
  "scan_exp s =
     (case s of
        [] \<Rightarrow> ([], s)
      | c # r \<Rightarrow>
          if c = CHR ''e'' \<or> c = CHR ''E''
          then (let (sg, r1) = (case r of
                                  [] \<Rightarrow> ([], r)
                                | d # r2 \<Rightarrow> if d = CHR ''+'' \<or> d = CHR ''-'' then ([d], r2) else ([], r))
                in if takeWhile is_digit r1 \<noteq> []
                   then (c # sg @ takeWhile is_digit r1, dropWhile is_digit r1)
                   else ([], s))
          else ([], s))"

definition scan_number :: "string \<Rightarrow> (string \<times> bool \<times> string) option" where
  "scan_number s =
     (let (sg, s1) = scan_sign s
      in case scan_int s1 of
           None \<Rightarrow> None
         | Some (ip, s2) \<Rightarrow>
             (let (fp, s3) = scan_frac s2;
                  (ep, s4) = scan_exp s3
              in Some (sg @ ip @ fp @ ep, fp \<noteq> [] \<or> ep \<noteq> [], s4)))"

definition nat_of_digits :: "string \<Rightarrow> nat" where
  "nat_of_digits s = foldl (\<lambda>acc c. 10 * acc + digit_value c) 0 s"

definition int_of_string :: "string \<Rightarrow> int" where
  "int_of_string s =
     (case s of
        [] \<Rightarrow> 0
      | c # r \<Rightarrow> if c = CHR ''-'' then - int (nat_of_digits r) else int (nat_of_digits s))"


definition unescape :: "char \<Rightarrow> char option" where
  "unescape e =
     (if e = CHR 0x22 then Some (CHR 0x22)
      else if e = CHR 0x5C then Some (CHR 0x5C)
      else if e = CHR ''/'' then Some (CHR ''/'')
      else if e = CHR ''b'' then Some (CHR 0x08)
      else if e = CHR ''f'' then Some (CHR 0x0C)
      else if e = CHR ''n'' then Some (CHR 0x0A)
      else if e = CHR ''r'' then Some (CHR 0x0D)
      else if e = CHR ''t'' then Some (CHR 0x09)
      else None)"

definition hex_value :: "char \<Rightarrow> nat option" where
  "hex_value c =
     (let n = code_point c in
        if 48 \<le> n \<and> n \<le> 57 then Some (n - 48)
        else if 97 \<le> n \<and> n \<le> 102 then Some (n - 87)
        else if 65 \<le> n \<and> n \<le> 70 then Some (n - 55)
        else None)"

definition hex4 :: "char \<Rightarrow> char \<Rightarrow> char \<Rightarrow> char \<Rightarrow> nat option" where
  "hex4 a b c d =
     (case (hex_value a, hex_value b, hex_value c, hex_value d) of
        (Some x, Some y, Some z, Some w) \<Rightarrow> Some (4096 * x + 256 * y + 16 * z + w)
      | _ \<Rightarrow> None)"

text \<open>
  The characters of a string up to its closing quote, with the escapes decoded; an
  unescaped control character is an error.
\<close>

fun scan_string :: "string \<Rightarrow> (string \<times> string) option" where
  "scan_string [] = None"
| "scan_string (c # cs) =
     (if c = CHR 0x22 then Some ([], cs)
      else if c = CHR 0x5C then
        (case cs of
           [] \<Rightarrow> None
         | e # cs1 \<Rightarrow>
             if e = CHR ''u'' then
               (case cs1 of
                  h1 # h2 # h3 # h4 # cs2 \<Rightarrow>
                    (case hex4 h1 h2 h3 h4 of
                       None \<Rightarrow> None
                     | Some n \<Rightarrow>
                         if n < 256
                         then (case scan_string cs2 of
                                 None \<Rightarrow> None
                               | Some (s, rest) \<Rightarrow> Some (char_of n # s, rest))
                         else None)
                | _ \<Rightarrow> None)
             else (case unescape e of
                     None \<Rightarrow> None
                   | Some ch \<Rightarrow>
                       (case scan_string cs1 of
                          None \<Rightarrow> None
                        | Some (s, rest) \<Rightarrow> Some (ch # s, rest))))
      else if code_point c < 32 then None
      else (case scan_string cs of None \<Rightarrow> None | Some (s, rest) \<Rightarrow> Some (c # s, rest)))"

text \<open>\<^verbatim>\<open>dict(pairs)\<close>: a repeated key keeps its first position and takes the last value.\<close>

definition dict_of_pairs :: "(string \<times> 'v) list \<Rightarrow> (string \<times> 'v) list" where
  "dict_of_pairs kvs = fold (\<lambda>kv d. dict_set d (fst kv) (snd kv)) kvs []"

fun parse_value :: "nat \<Rightarrow> (string \<Rightarrow> rat) \<Rightarrow> string \<Rightarrow> (json \<times> string) option"
  and parse_elements :: "nat \<Rightarrow> (string \<Rightarrow> rat) \<Rightarrow> string \<Rightarrow> (json list \<times> string) option"
  and parse_members :: "nat \<Rightarrow> (string \<Rightarrow> rat) \<Rightarrow> string \<Rightarrow> ((string \<times> json) list \<times> string) option"
  where
  "parse_value 0 pf s = None"
| "parse_value (Suc n) pf s =
     (case s of
        [] \<Rightarrow> None
      | c # cs \<Rightarrow>
          if c = CHR 0x22 then
            (case scan_string cs of None \<Rightarrow> None | Some (str, rest) \<Rightarrow> Some (JString str, rest))
          else if c = CHR ''{'' then
            (case skip_ws cs of
               [] \<Rightarrow> None
             | d # ds \<Rightarrow>
                 if d = CHR ''}'' then Some (JObject [], ds)
                 else (case parse_members n pf (d # ds) of
                         None \<Rightarrow> None
                       | Some (kvs, rest) \<Rightarrow> Some (JObject (dict_of_pairs kvs), rest)))
          else if c = CHR ''['' then
            (case skip_ws cs of
               [] \<Rightarrow> None
             | d # ds \<Rightarrow>
                 if d = CHR '']'' then Some (JArray [], ds)
                 else (case parse_elements n pf (d # ds) of
                         None \<Rightarrow> None
                       | Some (vs, rest) \<Rightarrow> Some (JArray vs, rest)))
          else if prefix ''null'' s then Some (JNull, drop 4 s)
          else if prefix ''true'' s then Some (JBool True, drop 4 s)
          else if prefix ''false'' s then Some (JBool False, drop 5 s)
          else (case scan_number s of
                  None \<Rightarrow> None
                | Some (tok, is_float, rest) \<Rightarrow>
                    Some (JNumber (if is_float then PyFloat (pf tok) else PyInt (int_of_string tok)),
                          rest)))"
| "parse_elements 0 pf s = None"
| "parse_elements (Suc n) pf s =
     (case parse_value n pf s of
        None \<Rightarrow> None
      | Some (v, r) \<Rightarrow>
          (case skip_ws r of
             [] \<Rightarrow> None
           | d # ds \<Rightarrow>
               if d = CHR '','' then
                 (case parse_elements n pf (skip_ws ds) of
                    None \<Rightarrow> None
                  | Some (vs, rest) \<Rightarrow> Some (v # vs, rest))
               else if d = CHR '']'' then Some ([v], ds)
               else None))"
| "parse_members 0 pf s = None"
| "parse_members (Suc n) pf s =
     (case s of
        [] \<Rightarrow> None
      | c # cs \<Rightarrow>
          if c \<noteq> CHR 0x22 then None
          else (case scan_string cs of
                  None \<Rightarrow> None
                | Some (k, r) \<Rightarrow>
                    (case skip_ws r of
                       [] \<Rightarrow> None
                     | d # ds \<Rightarrow>
                         if d \<noteq> CHR '':'' then None
                         else (case parse_value n pf (skip_ws ds) of
                                 None \<Rightarrow> None
                               | Some (v, r2) \<Rightarrow>
                                   (case skip_ws r2 of
                                      [] \<Rightarrow> None
                                    | e # es \<Rightarrow>
                                        if e = CHR '','' then
                                          (case parse_members n pf (skip_ws es) of
                                             None \<Rightarrow> None
                                           | Some (kvs, rest) \<Rightarrow> Some ((k, v) # kvs, rest))
                                        else if e = CHR ''}'' then Some ([(k, v)], es)
                                        else None)))))"









section \<open>The specification's notions\<close>

text \<open>The level of a heading element, 1 to 6, and 0 for any other element.\<close>

definition heading_level :: "element \<Rightarrow> nat" where
  "heading_level e =
     (if tag_name e = ''h1'' then 1 else if tag_name e = ''h2'' then 2
      else if tag_name e = ''h3'' then 3 else if tag_name e = ''h4'' then 4
      else if tag_name e = ''h5'' then 5 else if tag_name e = ''h6'' then 6 else 0)"

definition is_heading :: "element \<Rightarrow> bool" where
  "is_heading e = (heading_level e \<noteq> 0)"

text \<open>
  The keywords of a tokenised text as the specification describes them: the alphabetic
  tokens longer than two characters that are not stopwords, lower-cased.
\<close>

definition keyword_occurrences :: "token list \<Rightarrow> string list" where
  "keyword_occurrences doc =
     map (\<lambda>t. py_lower (token_text t))
       (filter (\<lambda>t. is_alpha t \<and> length (token_text t) > 2 \<and> \<not> is_stop t) doc)"

text \<open>
  The number of whitespace-delimited tokens of a string: the positions where a
  non-whitespace character follows whitespace or starts the string.
\<close>

fun word_starts :: "bool \<Rightarrow> string \<Rightarrow> nat" where
  "word_starts after_space [] = 0"
| "word_starts after_space (c # cs) =
     (if \<not> py_isspace c \<and> after_space then 1 else 0) + word_starts (py_isspace c) cs"

definition token_count :: "string \<Rightarrow> nat" where
  "token_count s = word_starts True s"


section \<open>A concrete run\<close>

text \<open>
  A small page and stand-ins for the libraries, on which the definitions above can be
  evaluated: the fetch returns a fixed document, the sentence splitter cuts at full stops,
  and the tokenizer takes the whitespace-delimited words as alphabetic non-stopword tokens.
\<close>

definition demo_soup :: "element list" where
  "demo_soup =
     [\<lparr>tag_name = ''h2'', tag_text = '' Sub '', tag_href = None\<rparr>,
      \<lparr>tag_name = ''p'', tag_text = ''seo tools help. Seo audits'', tag_href = None\<rparr>,
      \<lparr>tag_name = ''a'', tag_text = ''home'', tag_href = Some ''http://example.com/''\<rparr>,
      \<lparr>tag_name = ''h1'', tag_text = ''Title'', tag_href = None\<rparr>,
      \<lparr>tag_name = ''a'', tag_text = ''anchor only'', tag_href = None\<rparr>,
      \<lparr>tag_name = ''a'', tag_text = '' docs'', tag_href = Some ''/docs''\<rparr>,
      \<lparr>tag_name = ''p'', tag_text = ''tools'', tag_href = None\<rparr>]"

fun split_sentences :: "string \<Rightarrow> string \<Rightarrow> string list" where
  "split_sentences cur [] = (if cur = [] then [] else [cur])"
| "split_sentences cur (c # cs) =
     (if c = CHR ''.'' then (cur @ [c]) # split_sentences [] cs
      else split_sentences (cur @ [c]) cs)"

definition demo_libraries :: "element list \<Rightarrow> libraries" where
  "demo_libraries soup =
     \<lparr>requests_get = (\<lambda>u. Inr ''<html>''),
      html_parser = (\<lambda>h. Inr soup),
      sent_tokenize = (\<lambda>t. Inr (split_sentences [] t)),
      nlp = (\<lambda>t. Inr (map (\<lambda>w. \<lparr>token_text = w, is_stop = False, is_alpha = True\<rparr>) (py_split t))),
      float_repr = (\<lambda>q. if q = 3 then ''3.0'' else ''0.0'')\<rparr>"


definition demo_now :: datetime where
  "demo_now = \<lparr>year = 2024, month = 3, day = 9, hour = 14, minute = 5, second = 7, microsecond = 120\<rparr>"

definition demo_url :: string where
  "demo_url = ''https://www.example.com/blog/post?id=1''"

definition demo_record :: analysis_record where
  "demo_record =
     build_record demo_now demo_url demo_soup
       (split_sentences [] (page_text demo_soup)) ''example.com''
       (map (\<lambda>w. \<lparr>token_text = w, is_stop = False, is_alpha = True\<rparr>) (py_split (page_text demo_soup)))"



section \<open>Properties\<close>

lemma upt_1_7: "[1 ..< 7] = [1, 2, 3, 4, 5, 6 :: nat]" "[Suc 0 ..< 7] = [1, 2, 3, 4, 5, 6 :: nat]"
  by (simp_all add: upt_rec)

lemma heading_tags:
  "heading_tag (Suc 0) = ''h1''" "heading_tag 2 = ''h2''" "heading_tag 3 = ''h3''"
  "heading_tag 4 = ''h4''" "heading_tag 5 = ''h5''" "heading_tag 6 = ''h6''"
  by code_simp+

lemma collect_headings_blocks:
  "collect_headings soup =
     concat (map (\<lambda>i. map (\<lambda>h. py_strip (tag_text h)) (find_all (heading_tag i) soup)) [1 ..< 7])"
  by (simp add: collect_headings_def upt_1_7)

lemma mset_filter_disjoint:
  "(\<And>x. \<not> (P x \<and> Q x)) \<Longrightarrow> mset (filter P xs) + mset (filter Q xs) = mset (filter (\<lambda>x. P x \<or> Q x) xs)"
  by (induction xs) auto

lemma blocks_mset:
  "distinct ks \<Longrightarrow>
   mset (concat (map (\<lambda>k. filter (\<lambda>x. f x = k) xs) ks)) = mset (filter (\<lambda>x. f x \<in> set ks) xs)"
proof (induction ks)
  case Nil
  then show ?case by simp
next
  case (Cons k ks)
  have "mset (filter (\<lambda>x. f x = k) xs) + mset (filter (\<lambda>x. f x \<in> set ks) xs)
        = mset (filter (\<lambda>x. f x = k \<or> f x \<in> set ks) xs)"
    using Cons.prems by (intro mset_filter_disjoint) auto
  with Cons show ?case by simp
qed

lemma blocks_filter:
  "distinct ks \<Longrightarrow>
   filter (\<lambda>x. f x = j) (concat (map (\<lambda>k. filter (\<lambda>x. f x = k) xs) ks))
     = (if j \<in> set ks then filter (\<lambda>x. f x = j) xs else [])"
proof (induction ks)
  case Nil
  then show ?case by simp
next
  case (Cons k ks)
  have "filter (\<lambda>x. f x = j) (filter (\<lambda>x. f x = k) xs) = (if j = k then filter (\<lambda>x. f x = j) xs else [])"
    by (induction xs) auto
  with Cons show ?case by auto
qed

lemma blocks_sorted:
  fixes f :: "'a \<Rightarrow> nat"
  shows "sorted ks \<Longrightarrow> sorted (map f (concat (map (\<lambda>k. filter (\<lambda>x. f x = k) xs) ks)))"
proof (induction ks)
  case Nil
  then show ?case by simp
next
  case (Cons k ks)
  have "sorted (map f (filter (\<lambda>x. f x = k) xs))"
    by (induction xs) auto
  with Cons show ?case by (auto simp: sorted_append)
qed

lemma sort_key_blocks:
  fixes f :: "'a \<Rightarrow> nat"
  assumes "sorted ks" and "distinct ks"
  shows "sort_key f (filter (\<lambda>x. f x \<in> set ks) xs) = concat (map (\<lambda>k. filter (\<lambda>x. f x = k) xs) ks)"
proof (rule properties_for_sort_key)
  show "mset (concat (map (\<lambda>k. filter (\<lambda>x. f x = k) xs) ks)) = mset (filter (\<lambda>x. f x \<in> set ks) xs)"
    using assms(2) by (rule blocks_mset)
next
  fix y
  assume "y \<in> set (concat (map (\<lambda>k. filter (\<lambda>x. f x = k) xs) ks))"
  then have y: "f y \<in> set ks" by auto
  have "filter (\<lambda>x. f x = f y) (filter (\<lambda>x. f x \<in> set ks) xs) = filter (\<lambda>x. f x = f y) xs"
    using y by (induction xs) auto
  moreover have "(\<lambda>x. f y = f x) = (\<lambda>x. f x = f y)" by auto
  ultimately show "filter (\<lambda>x. f y = f x) (concat (map (\<lambda>k. filter (\<lambda>x. f x = k) xs) ks))
        = filter (\<lambda>x. f y = f x) (filter (\<lambda>x. f x \<in> set ks) xs)"
    using y blocks_filter [OF assms(2), of f "f y" xs] by simp
next
  show "sorted (map f (concat (map (\<lambda>k. filter (\<lambda>x. f x = k) xs) ks)))"
    using assms(1) by (rule blocks_sorted)
qed

lemma heading_level_le: "heading_level e \<le> 6"
  by (simp add: heading_level_def)

lemma heading_tag_level:
  "(tag_name e = ''h1'') = (heading_level e = Suc 0)"
  "(tag_name e = ''h2'') = (heading_level e = 2)"
  "(tag_name e = ''h3'') = (heading_level e = 3)"
  "(tag_name e = ''h4'') = (heading_level e = 4)"
  "(tag_name e = ''h5'') = (heading_level e = 5)"
  "(tag_name e = ''h6'') = (heading_level e = 6)"
  by (simp_all add: heading_level_def)

lemma is_heading_iff: "is_heading e \<longleftrightarrow> heading_level e \<in> set [1, 2, 3, 4, 5, 6]"
proof -
  have "heading_level e \<le> 6" by (rule heading_level_le)
  then show ?thesis unfolding is_heading_def by (simp; arith)
qed

lemma headings_stable_sort:
  "collect_headings soup =
     map (\<lambda>h. py_strip (tag_text h)) (sort_key heading_level (filter is_heading soup))"
proof -
  have "sort_key heading_level (filter (\<lambda>x. heading_level x \<in> set [1, 2, 3, 4, 5, 6]) soup)
        = concat (map (\<lambda>k. filter (\<lambda>x. heading_level x = k) soup) [1, 2, 3, 4, 5, 6])"
    by (rule sort_key_blocks) simp_all
  moreover have "is_heading = (\<lambda>x. heading_level x \<in> set [1, 2, 3, 4, 5, 6])"
    by (rule ext) (rule is_heading_iff)
  ultimately have "sort_key heading_level (filter is_heading soup)
        = concat (map (\<lambda>k. filter (\<lambda>x. heading_level x = k) soup) [1, 2, 3, 4, 5, 6])"
    by simp
  then show ?thesis
    by (simp add: collect_headings_def upt_1_7 find_all_def heading_tags heading_tag_level)
qed

lemma map_of_dict_set: "map_of (dict_set d k v) = (map_of d)(k \<mapsto> v)"
  by (induction d) (auto simp: fun_eq_iff)

lemma keys_dict_set: "map fst (dict_set d k v) = (if k \<in> fst ` set d then map fst d else map fst d @ [k])"
  by (induction d) auto

lemma distinct_dict_set: "distinct (map fst d) \<Longrightarrow> distinct (map fst (dict_set d k v))"
  by (simp add: keys_dict_set)

lemma is_keyword_iff: "is_keyword t \<longleftrightarrow> is_alpha t \<and> length (token_text t) > 2 \<and> \<not> is_stop t"
  by (auto simp: is_keyword_def)

lemma keyword_occurrences_Cons:
  "keyword_occurrences (t # ts) =
     (if is_keyword t then py_lower (token_text t) # keyword_occurrences ts else keyword_occurrences ts)"
  by (auto simp: keyword_occurrences_def is_keyword_def)

lemma keyword_occurrences_Nil: "keyword_occurrences [] = []"
  by (simp add: keyword_occurrences_def)

lemma distinct_count_keywords:
  "distinct (map fst kw) \<Longrightarrow> distinct (map fst (count_keywords doc kw))"
  by (induction doc arbitrary: kw) (auto simp: distinct_dict_set)

lemma map_of_count_keywords:
  "map_of (count_keywords doc kw) k =
     (case map_of kw k of
        None \<Rightarrow> if count_list (keyword_occurrences doc) k = 0 then None
                else Some (count_list (keyword_occurrences doc) k)
      | Some v \<Rightarrow> Some (v + count_list (keyword_occurrences doc) k))"
proof (induction doc arbitrary: kw)
  case Nil
  then show ?case by (simp add: keyword_occurrences_Nil split: option.splits)
next
  case (Cons t ts)
  then show ?case
    by (auto simp: keyword_occurrences_Cons map_of_dict_set dict_get_def split: option.splits)
qed

lemma sorted_keywords_desc:
  "sorted_wrt (\<lambda>a b. b \<le> a) (map snd (sorted_keywords kw))"
proof -
  have "sorted (map (\<lambda>item. - int (snd item)) (sort_key (\<lambda>item. - int (snd item)) kw))"
    by simp
  then have "sorted (map (\<lambda>item. - int (snd item)) (sorted_keywords kw))"
    unfolding sorted_keywords_def by (simp add: take_map [symmetric] sorted_wrt_take)
  then show ?thesis
    by (simp add: sorted_wrt_map)
qed


lemma split_from_length:
  "length (split_from cur s) = (if cur = [] then 0 else 1) + word_starts (cur = []) s"
  by (induction s arbitrary: cur) auto

lemma suggest_from_metrics_fired: "suggest_from_metrics m = fired_rules m"
  by (simp add: suggest_from_metrics_def fired_rules_def rule_table_def)

text \<open>
  Claim C1. The suggestion engine returns the suggestions of exactly the rules whose
  condition holds, in the order of the rule table: word count below 300 (Content Length,
  High), average sentence length above 20 (Readability, Medium), no heading (Structure,
  High), fewer than two internal links (Internal Linking, Medium), no external link
  (External Linking, Low). On the metrics of scenario 3 the result is Content Length,
  Internal Linking, External Linking.
\<close>

theorem C1_suggestion_rules:
  "suggest_improvements (Analysed r) = Inr (fired_rules (metrics r))
   \<and> map (\<lambda>rule. label (snd rule)) rule_table =
       [(''Content Length'', ''High''), (''Readability'', ''Medium''), (''Structure'', ''High''),
        (''Internal Linking'', ''Medium''), (''External Linking'', ''Low'')]
   \<and> map fst rule_table =
       [\<lambda>m. word_count m < 300, \<lambda>m. num_val (avg_sentence_length m) > 20,
        \<lambda>m. num_headings m = 0, \<lambda>m. num_internal_links m < 2, \<lambda>m. num_external_links m = 0]
   \<and> suggest_improvements (Analysed (r\<lparr>metrics := scenario3_metrics\<rparr>)) =
       Inr [content_length_suggestion, internal_linking_suggestion, external_linking_suggestion]
   \<and> map label [content_length_suggestion, internal_linking_suggestion, external_linking_suggestion] =
       [(''Content Length'', ''High''), (''Internal Linking'', ''Medium''), (''External Linking'', ''Low'')]"
  by (simp add: suggest_from_metrics_fired)
     (simp add: fired_rules_def rule_table_def label_def scenario3_metrics_def
        content_length_suggestion_def readability_suggestion_def structure_suggestion_def
        internal_linking_suggestion_def external_linking_suggestion_def)

text \<open>
  Claim C9. The suggestions are a function of the metrics alone: two analysis records with
  equal metrics get the same list of suggestions, whatever their other fields.
\<close>

theorem C9_suggestions_depend_on_metrics:
  "metrics a = metrics b \<Longrightarrow> suggest_improvements (Analysed a) = suggest_improvements (Analysed b)"
  by simp

theorem C9_suggestions_witness:
  "metrics demo_record = metrics (demo_record\<lparr>url := ''http://other.example/'', headings := []\<rparr>)
   \<and> demo_record \<noteq> demo_record\<lparr>url := ''http://other.example/'', headings := []\<rparr>
   \<and> suggest_improvements (Analysed demo_record) =
       suggest_improvements (Analysed (demo_record\<lparr>url := ''http://other.example/'', headings := []\<rparr>))"
proof -
  have m: "metrics demo_record = metrics (demo_record\<lparr>url := ''http://other.example/'', headings := []\<rparr>)"
    by simp
  have "url demo_record = demo_url"
    by (simp add: demo_record_def build_record_def Let_def split: prod.splits)
  then have "demo_record \<noteq> demo_record\<lparr>url := ''http://other.example/'', headings := []\<rparr>"
    by (auto simp: demo_url_def dest: arg_cong [where f = url])
  with m C9_suggestions_depend_on_metrics [OF m] show ?thesis by simp
qed

lemma href_make_link: "href (make_link a) = snd a"
  by (simp add: make_link_def)

lemma classify_links_eq:
  "classify_links d as i e =
     (i @ map make_link (filter (\<lambda>a. py_in d (snd a)) as),
      e @ map make_link (filter (\<lambda>a. \<not> py_in d (snd a)) as))"
  by (induction as arbitrary: i e) (simp_all add: Let_def href_make_link)

lemma classify_links_lists:
  "classify_links d as [] [] =
     (map make_link (filter (\<lambda>a. py_in d (snd a)) as),
      map make_link (filter (\<lambda>a. \<not> py_in d (snd a)) as))"
  by (simp add: classify_links_eq)

lemma build_record_fields:
  "url (build_record now u soup sentences domain doc) = u"
  "analyzed_at (build_record now u soup sentences domain doc) = isoformat now"
  "headings (build_record now u soup sentences domain doc) = collect_headings soup"
  "internal_links (build_record now u soup sentences domain doc) =
     map make_link (filter (\<lambda>a. py_in domain (snd a)) (href_anchors soup))"
  "external_links (build_record now u soup sentences domain doc) =
     map make_link (filter (\<lambda>a. \<not> py_in domain (snd a)) (href_anchors soup))"
  "top_keywords (build_record now u soup sentences domain doc) = sorted_keywords (count_keywords doc [])"
  "metrics (build_record now u soup sentences domain doc) =
     \<lparr>word_count = length (py_split (page_text soup)),
      avg_sentence_length = average_sentence_length (length (py_split (page_text soup))) sentences,
      num_headings = length (collect_headings soup),
      num_internal_links = length (filter (\<lambda>a. py_in domain (snd a)) (href_anchors soup)),
      num_external_links = length (filter (\<lambda>a. \<not> py_in domain (snd a)) (href_anchors soup))\<rparr>"
  by (simp_all add: build_record_def Let_def classify_links_lists)

lemma analysed_build_record:
  assumes "analyze_article lib now u = Analysed r"
    and "requests_get lib u = Inr html" and "html_parser lib html = Inr soup"
    and "sent_tokenize lib (page_text soup) = Inr sentences"
    and "url_domain u = Inr domain" and "nlp lib (page_text soup) = Inr doc"
  shows "r = build_record now u soup sentences domain doc"
  using assms by (simp add: analyze_article_def analyze_body_def)


lemma mset_map_partition:
  "mset (map f (filter P xs)) + mset (map f (filter (\<lambda>x. \<not> P x) xs)) = mset (map f xs)"
  by (induction xs) auto

text \<open>
  Claim C2. In a successful analysis the anchors that carry an href are split by the
  substring test of the page's domain against the href: the internal links are those that
  contain the domain, the external links the others, both in document order, so the two
  counts add up to the number of such anchors and no link is lost or repeated.
\<close>

theorem C2_links_partitioned:
  assumes "analyze_article lib now u = Analysed r"
    and "requests_get lib u = Inr html" and "html_parser lib html = Inr soup"
    and "url_domain u = Inr domain"
  shows "internal_links r = map make_link (filter (\<lambda>a. py_in domain (snd a)) (href_anchors soup))
       \<and> external_links r = map make_link (filter (\<lambda>a. \<not> py_in domain (snd a)) (href_anchors soup))
       \<and> mset (internal_links r) + mset (external_links r) = mset (map make_link (href_anchors soup))
       \<and> num_internal_links (metrics r) = length (internal_links r)
       \<and> num_external_links (metrics r) = length (external_links r)
       \<and> num_internal_links (metrics r) + num_external_links (metrics r) = length (href_anchors soup)"
proof -
  from assms obtain sentences doc where r: "r = build_record now u soup sentences domain doc"
    by (auto simp: analyze_article_def analyze_body_def split: sum.splits)
  have "length (filter (\<lambda>a. py_in domain (snd a)) (href_anchors soup))
        + length (filter (\<lambda>a. \<not> py_in domain (snd a)) (href_anchors soup)) = length (href_anchors soup)"
    by (rule sum_length_filter_compl)
  moreover have "mset (map make_link (filter (\<lambda>a. py_in domain (snd a)) (href_anchors soup)))
        + mset (map make_link (filter (\<lambda>a. \<not> py_in domain (snd a)) (href_anchors soup)))
        = mset (map make_link (href_anchors soup))"
    by (rule mset_map_partition)
  ultimately show ?thesis
    by (simp add: r build_record_fields)
qed

lemma demo_domain: "url_domain demo_url = Inr ''example.com''"
  by code_simp

lemma demo_analysis:
  "analyze_article (demo_libraries demo_soup) demo_now demo_url = Analysed demo_record"
  by (simp add: analyze_article_def analyze_body_def demo_libraries_def demo_record_def demo_domain)

theorem C2_links_witness:
  "analyze_article (demo_libraries demo_soup) demo_now demo_url = Analysed demo_record
   \<and> length (href_anchors demo_soup) = 2
   \<and> num_internal_links (metrics demo_record) + num_external_links (metrics demo_record) = 2
   \<and> internal_links demo_record = [\<lparr>link_text = ''home'', href = ''http://example.com/''\<rparr>]
   \<and> external_links demo_record = [\<lparr>link_text = ''docs'', href = ''/docs''\<rparr>]"
proof -
  have g: "requests_get (demo_libraries demo_soup) demo_url = Inr ''<html>''"
    and p: "html_parser (demo_libraries demo_soup) ''<html>'' = Inr demo_soup"
    by (simp_all add: demo_libraries_def)
  have n: "length (href_anchors demo_soup) = 2"
    by (simp add: href_anchors_def demo_soup_def)
  have i: "map make_link (filter (\<lambda>a. py_in ''example.com'' (snd a)) (href_anchors demo_soup))
           = [\<lparr>link_text = ''home'', href = ''http://example.com/''\<rparr>]"
    by code_simp
  have e: "map make_link (filter (\<lambda>a. \<not> py_in ''example.com'' (snd a)) (href_anchors demo_soup))
           = [\<lparr>link_text = ''docs'', href = ''/docs''\<rparr>]"
    by code_simp
  from C2_links_partitioned [OF demo_analysis g p demo_domain] n i e demo_analysis
  show ?thesis by simp
qed



lemma failure_points:
  "analyze_body lib now u = Inl e \<longleftrightarrow>
     requests_get lib u = Inl e
     \<or> (\<exists>html. requests_get lib u = Inr html \<and>
          (html_parser lib html = Inl e
           \<or> (\<exists>soup. html_parser lib html = Inr soup \<and>
                (sent_tokenize lib (page_text soup) = Inl e
                 \<or> (\<exists>sentences. sent_tokenize lib (page_text soup) = Inr sentences \<and>
                      (url_domain u = Inl e
                       \<or> (\<exists>domain. url_domain u = Inr domain \<and> nlp lib (page_text soup) = Inl e)))))))"
  by (auto simp: analyze_body_def split: sum.splits)

lemma py_split_token_count: "length (py_split s) = token_count s"
  by (simp add: py_split_def token_count_def split_from_length)


theorem C1_suggestion_rules_witness:
  "suggest_improvements (Analysed demo_record) =
     Inr [content_length_suggestion, internal_linking_suggestion]"
proof -
  have "fired_rules (metrics demo_record) = [content_length_suggestion, internal_linking_suggestion]"
    by code_simp
  with C1_suggestion_rules [of demo_record] show ?thesis by simp
qed



lemma distinct_keys_take_sort:
  "distinct (map fst kw) \<Longrightarrow> distinct (map fst (take n (sort_key f kw)))"
proof -
  assume "distinct (map fst kw)"
  then have "distinct (map fst (sort_key f kw))"
    by (simp add: distinct_map)
  then show ?thesis
    by (simp add: take_map [symmetric])
qed

lemma count_keywords_entries:
  assumes "item \<in> set (count_keywords doc [])"
  shows "snd item = count_list (keyword_occurrences doc) (fst item) \<and> 1 \<le> snd item"
proof -
  have "distinct (map fst (count_keywords doc []))"
    by (rule distinct_count_keywords) simp
  from map_of_eq_Some_iff [OF this, of "fst item" "snd item"] assms
  have "map_of (count_keywords doc []) (fst item) = Some (snd item)"
    by simp
  then show ?thesis
    by (simp add: map_of_count_keywords split: if_splits)
qed

lemma sorted_keywords_subset: "set (sorted_keywords kw) \<subseteq> set kw"
  unfolding sorted_keywords_def using set_take_subset [of 10 "sort_key (\<lambda>item. - int (snd item)) kw"]
  by simp

lemma sorted_keywords_highest:
  assumes "low \<in> set kw - set (sorted_keywords kw)" and "hi \<in> set (sorted_keywords kw)"
  shows "snd low \<le> snd hi"
proof -
  let ?f = "\<lambda>item. - int (snd item)"
  let ?ys = "sort_key ?f kw"
  have "sorted (map ?f (take 10 ?ys @ drop 10 ?ys))"
    by simp
  then have le: "\<forall>a \<in> set (take 10 ?ys). \<forall>b \<in> set (drop 10 ?ys). ?f a \<le> ?f b"
    unfolding map_append sorted_append by auto
  have "set ?ys = set (take 10 ?ys) \<union> set (drop 10 ?ys)"
    by (metis append_take_drop_id set_append)
  with assms have "low \<in> set (drop 10 ?ys)" and "hi \<in> set (take 10 ?ys)"
    by (auto simp: sorted_keywords_def)
  with le show ?thesis by auto
qed

text \<open>
  Claim C5. The keyword counts are the numbers of occurrences of the lower-cased
  alphabetic tokens longer than two characters that are not stopwords. The top keywords
  are the first ten entries of these counts in a stable order of descending count: at
  most ten entries with distinct keys, each with its count of at least 1, in descending
  order of count, and no entry left out has a higher count than an entry kept.
\<close>

theorem C5_top_keywords:
  assumes "analyze_article lib now u = Analysed r"
    and "requests_get lib u = Inr html" and "html_parser lib html = Inr soup"
    and "nlp lib (page_text soup) = Inr doc"
  shows "map_of (count_keywords doc []) =
           (\<lambda>k. if count_list (keyword_occurrences doc) k = 0 then None
                else Some (count_list (keyword_occurrences doc) k))
       \<and> distinct (map fst (count_keywords doc []))
       \<and> top_keywords r = take 10 (sort_key (\<lambda>item. - int (snd item)) (count_keywords doc []))
       \<and> length (top_keywords r) \<le> 10
       \<and> distinct (map fst (top_keywords r))
       \<and> (\<forall>item \<in> set (top_keywords r).
             1 \<le> snd item \<and> snd item = count_list (keyword_occurrences doc) (fst item))
       \<and> sorted_wrt (\<lambda>a b. b \<le> a) (map snd (top_keywords r))
       \<and> (\<forall>low \<in> set (count_keywords doc []) - set (top_keywords r).
             \<forall>hi \<in> set (top_keywords r). snd low \<le> snd hi)"
proof -
  from assms obtain sentences domain where r: "r = build_record now u soup sentences domain doc"
    by (auto simp: analyze_article_def analyze_body_def split: sum.splits)
  have t: "top_keywords r = sorted_keywords (count_keywords doc [])"
    by (simp add: r build_record_fields)
  have 1: "map_of (count_keywords doc []) =
           (\<lambda>k. if count_list (keyword_occurrences doc) k = 0 then None
                else Some (count_list (keyword_occurrences doc) k))"
    by (rule ext) (simp add: map_of_count_keywords)
  have 2: "distinct (map fst (count_keywords doc []))"
    by (rule distinct_count_keywords) simp
  have 3: "length (top_keywords r) \<le> 10"
    by (simp add: t sorted_keywords_def)
  have 4: "distinct (map fst (top_keywords r))"
    unfolding t sorted_keywords_def using 2 by (rule distinct_keys_take_sort)
  have 5: "\<forall>item \<in> set (top_keywords r).
             1 \<le> snd item \<and> snd item = count_list (keyword_occurrences doc) (fst item)"
  proof
    fix item
    assume "item \<in> set (top_keywords r)"
    with sorted_keywords_subset [of "count_keywords doc []"]
    have "item \<in> set (count_keywords doc [])"
      unfolding t by (rule subsetD)
    from count_keywords_entries [OF this]
    show "1 \<le> snd item \<and> snd item = count_list (keyword_occurrences doc) (fst item)"
      by simp
  qed
  have 6: "sorted_wrt (\<lambda>a b. b \<le> a) (map snd (top_keywords r))"
    unfolding t by (rule sorted_keywords_desc)
  have 7: "\<forall>low \<in> set (count_keywords doc []) - set (top_keywords r).
             \<forall>hi \<in> set (top_keywords r). snd low \<le> snd hi"
  proof (intro ballI)
    fix low hi
    assume "low \<in> set (count_keywords doc []) - set (top_keywords r)"
      and "hi \<in> set (top_keywords r)"
    then show "snd low \<le> snd hi"
      unfolding t by (rule sorted_keywords_highest)
  qed
  have 0: "top_keywords r = take 10 (sort_key (\<lambda>item. - int (snd item)) (count_keywords doc []))"
    by (simp add: t sorted_keywords_def)
  from 1 2 0 3 4 5 6 7 show ?thesis
    by (intro conjI)
qed

theorem C5_top_keywords_witness:
  "analyze_article (demo_libraries demo_soup) demo_now demo_url = Analysed demo_record
   \<and> top_keywords demo_record = [(''seo'', 2), (''tools'', 2), (''help.'', 1), (''audits'', 1)]
   \<and> length (top_keywords demo_record) \<le> 10
   \<and> sorted_wrt (\<lambda>a b. b \<le> a) (map snd (top_keywords demo_record))"
proof -
  let ?L = "demo_libraries demo_soup"
  let ?doc = "map (\<lambda>w. \<lparr>token_text = w, is_stop = False, is_alpha = True\<rparr>) (py_split (page_text demo_soup))"
  have k: "top_keywords demo_record = [(''seo'', 2), (''tools'', 2), (''help.'', 1), (''audits'', 1)]"
    by code_simp
  have "requests_get ?L demo_url = Inr ''<html>''" "html_parser ?L ''<html>'' = Inr demo_soup"
    "nlp ?L (page_text demo_soup) = Inr ?doc"
    by (simp_all add: demo_libraries_def)
  from C5_top_keywords [OF demo_analysis this] k demo_analysis show ?thesis by simp
qed

text \<open>
  Claim C6. The headings of a successful analysis are collected level by level, h1 to h6,
  each level in document order and stripped of surrounding whitespace: the heading
  elements of the page in a stable order of their level. Their number is the number of
  heading elements, and the Structure suggestion fires exactly when there is none. A page
  whose only headings are an h2 "Sub" followed by an h1 "Title" yields Title, Sub.
\<close>

theorem C6_headings_by_level:
  assumes "analyze_article lib now u = Analysed r"
    and "requests_get lib u = Inr html" and "html_parser lib html = Inr soup"
  shows "headings r =
           concat (map (\<lambda>i. map (\<lambda>h. py_strip (tag_text h)) (find_all (heading_tag i) soup)) [1 ..< 7])
       \<and> headings r = map (\<lambda>h. py_strip (tag_text h)) (sort_key heading_level (filter is_heading soup))
       \<and> num_headings (metrics r) = length (filter is_heading soup)
       \<and> (structure_suggestion \<in> set (suggest_from_metrics (metrics r))) = (filter is_heading soup = [])"
proof -
  from assms obtain sentences domain doc where r: "r = build_record now u soup sentences domain doc"
    by (auto simp: analyze_article_def analyze_body_def split: sum.splits)
  have h: "headings r = collect_headings soup"
    by (simp add: r build_record_fields)
  have n: "num_headings (metrics r) = length (filter is_heading soup)"
    by (simp add: r build_record_fields headings_stable_sort)
  have "(structure_suggestion \<in> set (suggest_from_metrics (metrics r))) = (num_headings (metrics r) = 0)"
    by (simp add: suggest_from_metrics_def Let_def content_length_suggestion_def
        readability_suggestion_def structure_suggestion_def internal_linking_suggestion_def
        external_linking_suggestion_def)
  with n h show ?thesis
    by (simp add: collect_headings_blocks headings_stable_sort [symmetric])
qed

theorem C6_headings_witness:
  "analyze_article (demo_libraries demo_soup) demo_now demo_url = Analysed demo_record
   \<and> map tag_name (filter is_heading demo_soup) = [''h2'', ''h1'']
   \<and> headings demo_record = [''Title'', ''Sub'']
   \<and> num_headings (metrics demo_record) = 2
   \<and> structure_suggestion \<notin> set (suggest_from_metrics (metrics demo_record))"
proof -
  let ?L = "demo_libraries demo_soup"
  have d: "map tag_name (filter is_heading demo_soup) = [''h2'', ''h1'']"
    and l: "length (filter is_heading demo_soup) = 2"
    by code_simp+
  from l have ne: "filter is_heading demo_soup \<noteq> []"
    by auto
  have hs: "concat (map (\<lambda>i. map (\<lambda>h. py_strip (tag_text h)) (find_all (heading_tag i) demo_soup)) [1 ..< 7])
            = [''Title'', ''Sub'']"
    by code_simp
  have "requests_get ?L demo_url = Inr ''<html>''" "html_parser ?L ''<html>'' = Inr demo_soup"
    by (simp_all add: demo_libraries_def)
  from C6_headings_by_level [OF demo_analysis this] d hs l ne demo_analysis show ?thesis
    by simp
qed

text \<open>
  Claim C10. In a successful analysis record the three counts of the metrics are the
  lengths of the record's heading and link lists, the word count is the number of
  whitespace-delimited tokens of the joined paragraph text, and the top keywords are
  computed from the tokens of that same text.
\<close>

theorem C10_record_consistent:
  assumes "analyze_article lib now u = Analysed r"
    and "requests_get lib u = Inr html" and "html_parser lib html = Inr soup"
    and "nlp lib (page_text soup) = Inr doc"
  shows "num_headings (metrics r) = length (headings r)
       \<and> num_internal_links (metrics r) = length (internal_links r)
       \<and> num_external_links (metrics r) = length (external_links r)
       \<and> word_count (metrics r) = length (py_split (page_text soup))
       \<and> word_count (metrics r) = token_count (page_text soup)
       \<and> top_keywords r = sorted_keywords (count_keywords doc [])"
proof -
  from assms obtain sentences domain where r: "r = build_record now u soup sentences domain doc"
    by (auto simp: analyze_article_def analyze_body_def split: sum.splits)
  show ?thesis
    by (simp add: r build_record_fields py_split_token_count)
qed

theorem C10_record_witness:
  "analyze_article (demo_libraries demo_soup) demo_now demo_url = Analysed demo_record
   \<and> page_text demo_soup = ''seo tools help. Seo audits tools''
   \<and> word_count (metrics demo_record) = 6
   \<and> token_count (page_text demo_soup) = 6
   \<and> num_headings (metrics demo_record) = length (headings demo_record)
   \<and> num_internal_links (metrics demo_record) = length (internal_links demo_record)
   \<and> num_external_links (metrics demo_record) = length (external_links demo_record)"
proof -
  let ?L = "demo_libraries demo_soup"
  let ?doc = "map (\<lambda>w. \<lparr>token_text = w, is_stop = False, is_alpha = True\<rparr>) (py_split (page_text demo_soup))"
  have t: "page_text demo_soup = ''seo tools help. Seo audits tools''"
    and c: "token_count (page_text demo_soup) = 6"
    by code_simp+
  have "requests_get ?L demo_url = Inr ''<html>''" "html_parser ?L ''<html>'' = Inr demo_soup"
    "nlp ?L (page_text demo_soup) = Inr ?doc"
    by (simp_all add: demo_libraries_def)
  from C10_record_consistent [OF demo_analysis this] t c demo_analysis show ?thesis by simp
qed







subsection \<open>The JSON round trip\<close>




lemma code_point_inject: "code_point a = code_point b \<Longrightarrow> a = b"
  by (simp add: code_point_def)












































lemma parse_null: "parse_value (Suc n) pf (''null'' @ rest) = Some (JNull, rest)"
  by simp

lemma parse_true: "parse_value (Suc n) pf (''true'' @ rest) = Some (JBool True, rest)"
  by simp

lemma parse_false: "parse_value (Suc n) pf (''false'' @ rest) = Some (JBool False, rest)"
  by simp



















end
